theory Spec2Isabelle
  imports Complex_Main
begin

section \<open>JavaScript values\<close>

text \<open>
  The server in \<^verbatim>\<open>src/server.js\<close> reads fields of a JSON request body and applies
  the language's own coercions to them: truthiness (\<^verbatim>\<open>!x\<close>), \<^verbatim>\<open>Number(x)\<close>,
  \<^verbatim>\<open>Math.min\<close> and \<^verbatim>\<open>Math.max\<close>. A number is a double: either not-a-number, an
  infinity, negative zero, or a finite value, which is a rational (\<open>Fin 0\<close> is positive
  zero). No arithmetic is ever done on these numbers by the server, only comparisons, so
  no rounding occurs; the model lets \<open>Fin\<close> carry any rational, which includes every
  double.

  A field value is one of the primitive values. Arrays and objects as field values are
  outside the model.
\<close>

datatype jsnum = NaN | NegInf | NegZero | Fin rat | PosInf

datatype jsval = JUndefined | JNull | JBool bool | JNum jsnum | JStr string

text \<open>\<^verbatim>\<open>!x\<close> is \<open>\<not> truthy x\<close>.\<close>

fun truthy :: "jsval \<Rightarrow> bool" where
  "truthy JUndefined = False"
| "truthy JNull = False"
| "truthy (JBool b) = b"
| "truthy (JNum n) = (n \<noteq> NaN \<and> n \<noteq> NegZero \<and> n \<noteq> Fin 0)"
| "truthy (JStr s) = (s \<noteq> [])"

text \<open>
  The order that \<^verbatim>\<open>Math.min\<close> and \<^verbatim>\<open>Math.max\<close> use on numbers other than NaN:
  \<open>-\<infinity>\<close>, the negative values, \<open>-0\<close>, \<open>+0\<close>, the positive values, \<open>+\<infinity>\<close>.
  \<open>below x y\<close> is the strict order; NaN is below nothing and nothing is below it.
\<close>

fun below :: "jsnum \<Rightarrow> jsnum \<Rightarrow> bool" where
  "below NaN y = False"
| "below x NaN = False"
| "below NegInf y = (y \<noteq> NegInf)"
| "below x NegInf = False"
| "below PosInf y = False"
| "below x PosInf = True"
| "below NegZero NegZero = False"
| "below NegZero (Fin s) = (0 \<le> s)"
| "below (Fin r) NegZero = (r < 0)"
| "below (Fin r) (Fin s) = (r < s)"

definition Math_min :: "jsnum \<Rightarrow> jsnum \<Rightarrow> jsnum" where
  "Math_min a b = (if a = NaN \<or> b = NaN then NaN else if below b a then b else a)"

definition Math_max :: "jsnum \<Rightarrow> jsnum \<Rightarrow> jsnum" where
  "Math_max a b = (if a = NaN \<or> b = NaN then NaN else if below a b then b else a)"

section \<open>The runtime and the libraries\<close>

text \<open>How a call ends: it returns a value, or it throws an error with a message.\<close>

datatype 'a completion = Returns 'a | Throws string

text \<open>
  The functions of the language runtime and of the packages \<^verbatim>\<open>bcrypt\<close> and
  \<^verbatim>\<open>jsonwebtoken\<close> are not code of this repository. The model takes them as
  parameters, collected in one record, and every theorem holds for all of them.
  \<^item> \<open>StringToNumber s\<close>: the number that \<^verbatim>\<open>Number(s)\<close> gives for a string;
  \<^item> \<open>toLowerCase s\<close>: \<^verbatim>\<open>s.toLowerCase()\<close>;
  \<^item> \<open>jwt_verify t k n\<close>: \<^verbatim>\<open>jwt.verify(t, k)\<close> returns, at time \<open>n\<close>, without throwing
    (the signature matches the key and the token has not expired);
  \<^item> \<open>jwt_sign k n d\<close>: how \<^verbatim>\<open>jwt.sign({ admin: true }, k, { expiresIn })\<close> ends at time
    \<open>n\<close> for a lifetime of \<open>d\<close> seconds: the token, or the error it throws;
  \<^item> \<open>bcrypt_hash p r s\<close>: how \<^verbatim>\<open>bcrypt.hash(p, r)\<close> ends when the salt it draws comes
    from the seed \<open>s\<close>;
  \<^item> \<open>bcrypt_compare p h\<close>: how \<^verbatim>\<open>bcrypt.compare(p, h)\<close> ends; \<open>h\<close> is \<open>None\<close> when the
    stored document has no password.
\<close>

record lib =
  StringToNumber :: "string \<Rightarrow> jsnum"
  toLowerCase :: "string \<Rightarrow> string"
  jwt_verify :: "string \<Rightarrow> string option \<Rightarrow> nat \<Rightarrow> bool"
  jwt_sign :: "string option \<Rightarrow> nat \<Rightarrow> nat \<Rightarrow> string completion"
  bcrypt_hash :: "string \<Rightarrow> nat \<Rightarrow> nat \<Rightarrow> string completion"
  bcrypt_compare :: "jsval \<Rightarrow> string option \<Rightarrow> bool completion"

text \<open>\<^verbatim>\<open>Number(x)\<close> on a primitive value.\<close>

fun Number :: "lib \<Rightarrow> jsval \<Rightarrow> jsnum" where
  "Number L JUndefined = NaN"
| "Number L JNull = Fin 0"
| "Number L (JBool b) = (if b then Fin 1 else Fin 0)"
| "Number L (JNum n) = n"
| "Number L (JStr s) = StringToNumber L s"

text \<open>
  \<^verbatim>\<open>s.split(' ')\<close>: the pieces of \<open>s\<close> between single spaces. There is always at
  least one piece.
\<close>

fun split :: "char \<Rightarrow> string \<Rightarrow> string list" where
  "split c [] = [[]]"
| "split c (x # xs) =
     (if x = c then [] # split c xs
      else (case split c xs of [] \<Rightarrow> [[x]] | p # ps \<Rightarrow> (x # p) # ps))"

text \<open>\<^verbatim>\<open>a[i]\<close> on an array: \<^verbatim>\<open>undefined\<close> (here \<open>None\<close>) out of range.\<close>

definition item :: "'a list \<Rightarrow> nat \<Rightarrow> 'a option" where
  "item xs i = (if i < length xs then Some (xs ! i) else None)"

section \<open>The data model\<close>

text \<open>
  The four Mongoose models. \<open>password\<close> is optional in \<^verbatim>\<open>adminSchema\<close>; the three
  other schemas have \<^verbatim>\<open>timestamps: true\<close>, of which the model keeps \<open>createdAt\<close>, the
  one the code sorts by. A collection is the list of its documents in insertion
  order. A date is a number of milliseconds.
\<close>

record admin =
  password :: "string option"
  initialized :: bool

record presaleEnd =
  endDateTime :: int
  presale_createdAt :: nat

record progressBar =
  "value" :: jsnum
  progress_createdAt :: nat

record walletAddress =
  address :: string
  wallet_createdAt :: nat

record database =
  Admin :: "admin list"
  PresaleEnd :: "presaleEnd list"
  ProgressBar :: "progressBar list"
  WalletAddress :: "walletAddress list"

text \<open>\<^verbatim>\<open>process.env\<close>: a variable that is not set is \<^verbatim>\<open>undefined\<close>, here \<open>None\<close>.\<close>

record env =
  Database_URL :: "string option"
  JWT_SECRET :: "string option"
  ADMIN_PASSWORD :: "string option"

section \<open>Effects\<close>

text \<open>
  Every call the server makes to the database driver and to the console is recorded,
  in order, in a trace. A call to the database may throw; whether it does is not
  decided by this repository, so the world carries a script \<open>faults\<close>: each such call
  takes the head of the script, and throws an error with message \<open>e\<close> when the head is
  \<open>Some e\<close>. An empty script means that no call throws. \<open>now\<close> is the clock, and
  \<open>seed\<close> the source of the salts that \<^verbatim>\<open>bcrypt\<close> draws.
\<close>

datatype event =
    Connect "string option"
  | ConsoleLog string
  | ConsoleError "string list"
  | AdminFindOne
  | AdminSave admin
  | AdminInsert admin
  | PresaleEndFindNewest
  | ProgressBarFindOne
  | ProgressBarFindNewest
  | ProgressBarSave jsnum
  | ProgressBarCreate jsnum
  | WalletAddressFindOne string
  | WalletAddressCreate string

record world =
  isConnected :: bool
  environment :: env
  db :: database
  now :: nat
  seed :: nat
  faults :: "string option list"
  trace :: "event list"

definition emit :: "event \<Rightarrow> world \<Rightarrow> world" where
  "emit ev w = w\<lparr>trace := trace w @ [ev]\<rparr>"

definition call :: "event \<Rightarrow> world \<Rightarrow> unit completion \<times> world" where
  "call ev w =
     (case faults w of
        [] \<Rightarrow> (Returns (), emit ev w)
      | None # fs \<Rightarrow> (Returns (), emit ev (w\<lparr>faults := fs\<rparr>))
      | Some e # fs \<Rightarrow> (Throws e, emit ev (w\<lparr>faults := fs\<rparr>)))"

text \<open>\<open>quiet n w\<close>: none of the next \<open>n\<close> calls to the database throws.\<close>

definition quiet :: "nat \<Rightarrow> world \<Rightarrow> bool" where
  "quiet n w = list_all (\<lambda>f. f = None) (take n (faults w))"

section \<open>The connection\<close>

text \<open>
  \<^verbatim>\<open>connectDB\<close> (lines 15 to 24). \<^verbatim>\<open>isConnected\<close> starts as \<^verbatim>\<open>undefined\<close>, which
  is \<open>False\<close> here. When \<^verbatim>\<open>mongoose.connect\<close> throws, the assignment of line 22 is not
  reached. The call of line 27, made when the module is loaded, is one more call of
  this function.
\<close>

definition connectDB :: "world \<Rightarrow> unit completion \<times> world" where
  "connectDB w =
     (if isConnected w then (Returns (), w)
      else
        (case call (Connect (Database_URL (environment w))) w of
           (Throws e, w1) \<Rightarrow> (Throws e, w1)
         | (Returns _, w1) \<Rightarrow>
             (Returns (), emit (ConsoleLog ''MongoDB Connected'') (w1\<lparr>isConnected := True\<rparr>))))"

section \<open>The store\<close>

text \<open>
  A read of the database records its event and, unless the call throws, returns what
  it finds; a write records its event and, unless the call throws, changes the
  collection. A handler is modelled as running alone, from its first line to its
  last, as it does when no other request is in flight.
\<close>

definition query :: "event \<Rightarrow> (database \<Rightarrow> 'a) \<Rightarrow> world \<Rightarrow> 'a completion \<times> world" where
  "query ev f w =
     (case call ev w of
        (Throws e, w1) \<Rightarrow> (Throws e, w1)
      | (Returns _, w1) \<Rightarrow> (Returns (f (db w1)), w1))"

definition mutate :: "event \<Rightarrow> (database \<Rightarrow> database) \<Rightarrow> world \<Rightarrow> unit completion \<times> world" where
  "mutate ev f w =
     (case call ev w of
        (Throws e, w1) \<Rightarrow> (Throws e, w1)
      | (Returns _, w1) \<Rightarrow> (Returns (), w1\<lparr>db := f (db w1)\<rparr>))"

text \<open>\<^verbatim>\<open>Model.findOne()\<close>: the first document of the collection, or \<^verbatim>\<open>null\<close>.\<close>

definition findOne :: "'a list \<Rightarrow> 'a option" where
  "findOne xs = (case xs of [] \<Rightarrow> None | x # _ \<Rightarrow> Some x)"

text \<open>
  \<^verbatim>\<open>Model.findOne().sort({ createdAt: -1 })\<close>: a document with the greatest
  \<open>createdAt\<close>, or \<^verbatim>\<open>null\<close>; among several equally new documents the model takes
  the first.
\<close>

fun newest :: "('a \<Rightarrow> nat) \<Rightarrow> 'a list \<Rightarrow> 'a option" where
  "newest t [] = None"
| "newest t (x # xs) =
     (case newest t xs of
        None \<Rightarrow> Some x
      | Some y \<Rightarrow> if t x < t y then Some y else Some x)"

section \<open>Requests and responses\<close>

record request =
  authorization :: "string option"
  body :: "string \<rightharpoonup> jsval"

text \<open>\<^verbatim>\<open>const { k } = req.body\<close>: a field that is absent is \<^verbatim>\<open>undefined\<close>.\<close>

definition field :: "request \<Rightarrow> string \<Rightarrow> jsval" where
  "field req k = (case body req k of None \<Rightarrow> JUndefined | Some v \<Rightarrow> v)"

datatype doc =
    PresaleEndDoc presaleEnd
  | ProgressBarDoc progressBar
  | WalletAddressDoc walletAddress

text \<open>
  What a handler sends: \<open>Message m\<close> is \<^verbatim>\<open>{ message: m }\<close>, \<open>MessageData m d\<close> is
  \<^verbatim>\<open>{ message: m, data: d }\<close>, \<open>Token t\<close> is \<^verbatim>\<open>{ token: t }\<close>, \<open>Document d\<close> is the
  document itself and \<open>Text s\<close> is what \<^verbatim>\<open>res.send(s)\<close> sends.
\<close>

datatype reply =
    Message string
  | MessageData string doc
  | Token string
  | Document doc
  | Text string

text \<open>
  How a handler ends: it has sent a response with a status (200 when the code sets
  none), or its promise is rejected with an error and the handler has sent nothing.
\<close>

datatype outcome = Responded nat reply | Rejected string

section \<open>The middleware\<close>

text \<open>
  \<^verbatim>\<open>authenticateJWT\<close> (lines 61 to 71). \<open>bearer_token\<close> is the expression of line 62:
  the second piece of the header split at spaces, \<^verbatim>\<open>undefined\<close> (here \<open>None\<close>) when
  there is no header or no second piece. \<^verbatim>\<open>!token\<close> holds when the token is
  \<^verbatim>\<open>undefined\<close> or the empty string. \<open>next\<close> is the handler the route wraps.
\<close>

definition bearer_token :: "request \<Rightarrow> string option" where
  "bearer_token req =
     (case authorization req of
        None \<Rightarrow> None
      | Some h \<Rightarrow> item (split CHR '' '' h) 1)"

definition authenticateJWT ::
  "lib \<Rightarrow> (request \<Rightarrow> world \<Rightarrow> outcome \<times> world) \<Rightarrow> request \<Rightarrow> world \<Rightarrow> outcome \<times> world" where
  "authenticateJWT L next req w =
     (case bearer_token req of
        None \<Rightarrow> (Responded 401 (Message ''Unauthorized''), w)
      | Some token \<Rightarrow>
          if token = [] then (Responded 401 (Message ''Unauthorized''), w)
          else if jwt_verify L token (JWT_SECRET (environment w)) (now w) then next req w
          else (Responded 403 (Message ''Invalid token''), w))"

section \<open>The admin account\<close>

text \<open>
  \<^verbatim>\<open>initializeAdmin\<close> (lines 74 to 99). \<open>initializeAdmin_try\<close> is the body of its
  \<^verbatim>\<open>try\<close> block; the call of \<^verbatim>\<open>connectDB\<close> stands before the block, so an error
  of the connection is not caught.
\<close>

definition initializeAdmin_try :: "lib \<Rightarrow> world \<Rightarrow> unit completion \<times> world" where
  "initializeAdmin_try L w =
     (case query AdminFindOne (\<lambda>d. findOne (Admin d)) w of
        (Throws e, w1) \<Rightarrow> (Throws e, w1)
      | (Returns existingAdmin, w1) \<Rightarrow>
          if (case existingAdmin of None \<Rightarrow> False | Some a \<Rightarrow> initialized a)
          then (Returns (), w1)
          else
            (case ADMIN_PASSWORD (environment w1) of
               None \<Rightarrow>
                 (Returns (),
                  emit (ConsoleError [''ADMIN_PASSWORD must be set and at least 8 characters.'']) w1)
             | Some adminPassword \<Rightarrow>
                 if adminPassword = [] \<or> length adminPassword < 8
                 then (Returns (),
                       emit (ConsoleError [''ADMIN_PASSWORD must be set and at least 8 characters.'']) w1)
                 else
                   (case bcrypt_hash L adminPassword 10 (seed w1) of
                      Throws e \<Rightarrow> (Throws e, w1\<lparr>seed := Suc (seed w1)\<rparr>)
                    | Returns hashedPassword \<Rightarrow>
                        (let w2 = w1\<lparr>seed := Suc (seed w1)\<rparr>
                         in case existingAdmin of
                              Some a \<Rightarrow>
                                (let a' = a\<lparr>password := Some hashedPassword, initialized := True\<rparr>
                                 in mutate (AdminSave a') (\<lambda>d. d\<lparr>Admin := (Admin d)[0 := a']\<rparr>) w2)
                            | None \<Rightarrow>
                                (let a' = \<lparr>password = Some hashedPassword, initialized = True\<rparr>
                                 in mutate (AdminInsert a') (\<lambda>d. d\<lparr>Admin := Admin d @ [a']\<rparr>) w2)))))"

definition initializeAdmin :: "lib \<Rightarrow> world \<Rightarrow> unit completion \<times> world" where
  "initializeAdmin L w =
     (case connectDB w of
        (Throws e, w1) \<Rightarrow> (Throws e, w1)
      | (Returns _, w1) \<Rightarrow>
          (case initializeAdmin_try L w1 of
             (Throws e, w2) \<Rightarrow>
               (Returns (), emit (ConsoleError [''Error initializing admin:'', e]) w2)
           | (Returns _, w2) \<Rightarrow> (Returns (), w2)))"

text \<open>The handler of \<^verbatim>\<open>GET /api/init-admin\<close> (lines 269 to 272).\<close>

definition get_init_admin :: "lib \<Rightarrow> request \<Rightarrow> world \<Rightarrow> outcome \<times> world" where
  "get_init_admin L req w =
     (case initializeAdmin L w of
        (Throws e, w1) \<Rightarrow> (Rejected e, w1)
      | (Returns _, w1) \<Rightarrow> (Responded 200 (Text ''Tried initializing admin''), w1))"

text \<open>
  The handler of \<^verbatim>\<open>POST /api/authenticate\<close> (lines 102 to 124).
  \<^verbatim>\<open>password.length < 8\<close> is a comparison of numbers for a string; for a boolean or a
  number \<^verbatim>\<open>password.length\<close> is \<^verbatim>\<open>undefined\<close> and the comparison is false.
\<close>

definition too_short :: "jsval \<Rightarrow> bool" where
  "too_short pw = (case pw of JStr s \<Rightarrow> length s < 8 | _ \<Rightarrow> False)"

definition post_authenticate_try :: "lib \<Rightarrow> jsval \<Rightarrow> world \<Rightarrow> outcome completion \<times> world" where
  "post_authenticate_try L pw w =
     (case query AdminFindOne (\<lambda>d. findOne (Admin d)) w of
        (Throws e, w1) \<Rightarrow> (Throws e, w1)
      | (Returns None, w1) \<Rightarrow>
          (Returns (Responded 401 (Message ''Admin account not initialized'')), w1)
      | (Returns (Some a), w1) \<Rightarrow>
          if \<not> initialized a
          then (Returns (Responded 401 (Message ''Admin account not initialized'')), w1)
          else
            (case bcrypt_compare L pw (password a) of
               Throws e \<Rightarrow> (Throws e, w1)
             | Returns match \<Rightarrow>
                 if match
                 then (case jwt_sign L (JWT_SECRET (environment w1)) (now w1) 3600 of
                         Throws e \<Rightarrow> (Throws e, w1)
                       | Returns token \<Rightarrow> (Returns (Responded 200 (Token token)), w1))
                 else (Returns (Responded 401 (Message ''Invalid password'')), w1)))"

definition post_authenticate :: "lib \<Rightarrow> request \<Rightarrow> world \<Rightarrow> outcome \<times> world" where
  "post_authenticate L req w =
     (case connectDB w of
        (Throws e, w1) \<Rightarrow> (Rejected e, w1)
      | (Returns _, w1) \<Rightarrow>
          (let pw = field req ''password''
           in if \<not> truthy pw \<or> too_short pw
              then (Responded 400 (Message ''Password must be at least 8 characters''), w1)
              else
                (case post_authenticate_try L pw w1 of
                   (Throws e, w2) \<Rightarrow>
                     (Responded 500 (Message ''Server error''), emit (ConsoleError [e]) w2)
                 | (Returns r, w2) \<Rightarrow> (r, w2))))"

text \<open>The handler of \<^verbatim>\<open>GET /api/verify-token\<close> (lines 126 to 128), and the route.\<close>

definition get_verify_token :: "request \<Rightarrow> world \<Rightarrow> outcome \<times> world" where
  "get_verify_token req w = (Responded 200 (Message ''Token valid''), w)"

definition route_get_verify_token :: "lib \<Rightarrow> request \<Rightarrow> world \<Rightarrow> outcome \<times> world" where
  "route_get_verify_token L = authenticateJWT L get_verify_token"

section \<open>The presale end and the progress bar\<close>

text \<open>The handler of \<^verbatim>\<open>GET /api/presale-end\<close> (lines 153 to 162).\<close>

definition get_presale_end :: "request \<Rightarrow> world \<Rightarrow> outcome \<times> world" where
  "get_presale_end req w =
     (case connectDB w of
        (Throws e, w1) \<Rightarrow> (Rejected e, w1)
      | (Returns _, w1) \<Rightarrow>
          (case query PresaleEndFindNewest (\<lambda>d. newest presale_createdAt (PresaleEnd d)) w1 of
             (Throws e, w2) \<Rightarrow>
               (Responded 500 (Message ''Server error''), emit (ConsoleError [e]) w2)
           | (Returns None, w2) \<Rightarrow>
               (Responded 200 (Message ''No presale end date set yet''), w2)
           | (Returns (Some record), w2) \<Rightarrow>
               (Responded 200 (Document (PresaleEndDoc record)), w2)))"

text \<open>
  The handler of \<^verbatim>\<open>POST /api/progress-bar\<close> (lines 187 to 212). \<open>clamp\<close> is the
  expression of line 197; \<open>post_progress_bar_try\<close> is the body of the \<^verbatim>\<open>try\<close>
  block, which writes the clamped value to the document that \<^verbatim>\<open>findOne\<close> returned,
  or creates the document.
\<close>

definition clamp :: "lib \<Rightarrow> jsval \<Rightarrow> jsnum" where
  "clamp L v = Math_max (Fin 0) (Math_min (Number L v) (Fin 100))"

definition post_progress_bar_try :: "jsnum \<Rightarrow> world \<Rightarrow> outcome completion \<times> world" where
  "post_progress_bar_try v w =
     (case query ProgressBarFindOne (\<lambda>d. findOne (ProgressBar d)) w of
        (Throws e, w1) \<Rightarrow> (Throws e, w1)
      | (Returns (Some r), w1) \<Rightarrow>
          (let record = r\<lparr>value := v\<rparr>
           in case mutate (ProgressBarSave v)
                     (\<lambda>d. d\<lparr>ProgressBar := (ProgressBar d)[0 := record]\<rparr>) w1 of
                (Throws e, w2) \<Rightarrow> (Throws e, w2)
              | (Returns _, w2) \<Rightarrow>
                  (Returns (Responded 200
                     (MessageData ''Progress bar value saved'' (ProgressBarDoc record))), w2))
      | (Returns None, w1) \<Rightarrow>
          (let record = \<lparr>value = v, progress_createdAt = now w1\<rparr>
           in case mutate (ProgressBarCreate v)
                     (\<lambda>d. d\<lparr>ProgressBar := ProgressBar d @ [record]\<rparr>) w1 of
                (Throws e, w2) \<Rightarrow> (Throws e, w2)
              | (Returns _, w2) \<Rightarrow>
                  (Returns (Responded 200
                     (MessageData ''Progress bar value saved'' (ProgressBarDoc record))), w2)))"

definition post_progress_bar :: "lib \<Rightarrow> request \<Rightarrow> world \<Rightarrow> outcome \<times> world" where
  "post_progress_bar L req w =
     (case connectDB w of
        (Throws e, w1) \<Rightarrow> (Rejected e, w1)
      | (Returns _, w1) \<Rightarrow>
          (let v = field req ''value''
           in if v = JUndefined
              then (Responded 400 (Message ''value is required''), w1)
              else
                (case post_progress_bar_try (clamp L v) w1 of
                   (Throws e, w2) \<Rightarrow>
                     (Responded 500 (Message ''Server error''), emit (ConsoleError [e]) w2)
                 | (Returns r, w2) \<Rightarrow> (r, w2))))"

definition route_post_progress_bar :: "lib \<Rightarrow> request \<Rightarrow> world \<Rightarrow> outcome \<times> world" where
  "route_post_progress_bar L = authenticateJWT L (post_progress_bar L)"

text \<open>The handler of \<^verbatim>\<open>GET /api/progress-bar\<close> (lines 216 to 225).\<close>

definition get_progress_bar :: "request \<Rightarrow> world \<Rightarrow> outcome \<times> world" where
  "get_progress_bar req w =
     (case connectDB w of
        (Throws e, w1) \<Rightarrow> (Rejected e, w1)
      | (Returns _, w1) \<Rightarrow>
          (case query ProgressBarFindNewest (\<lambda>d. newest progress_createdAt (ProgressBar d)) w1 of
             (Throws e, w2) \<Rightarrow>
               (Responded 500 (Message ''Server error''), emit (ConsoleError [e]) w2)
           | (Returns None, w2) \<Rightarrow>
               (Responded 200 (Message ''No progress bar value set yet''), w2)
           | (Returns (Some record), w2) \<Rightarrow>
               (Responded 200 (Document (ProgressBarDoc record)), w2)))"

section \<open>The wallet addresses\<close>

text \<open>
  The handler of \<^verbatim>\<open>POST /api/wallet-address\<close> (lines 229 to 251). Only a string has
  a method \<^verbatim>\<open>toLowerCase\<close>: for a boolean or a number the call of line 237 throws a
  TypeError inside the \<^verbatim>\<open>try\<close> block.
\<close>

definition post_wallet_address_try :: "lib \<Rightarrow> jsval \<Rightarrow> world \<Rightarrow> outcome completion \<times> world" where
  "post_wallet_address_try L addr w =
     (case addr of
        JStr s \<Rightarrow>
          (let lowerAddr = toLowerCase L s
           in case query (WalletAddressFindOne lowerAddr)
                     (\<lambda>d. find (\<lambda>r. address r = lowerAddr) (WalletAddress d)) w of
                (Throws e, w1) \<Rightarrow> (Throws e, w1)
              | (Returns (Some existing), w1) \<Rightarrow>
                  (Returns (Responded 409
                     (MessageData ''Address already exists'' (WalletAddressDoc existing))), w1)
              | (Returns None, w1) \<Rightarrow>
                  (let record = \<lparr>address = lowerAddr, wallet_createdAt = now w1\<rparr>
                   in case mutate (WalletAddressCreate lowerAddr)
                             (\<lambda>d. d\<lparr>WalletAddress := WalletAddress d @ [record]\<rparr>) w1 of
                        (Throws e, w2) \<Rightarrow> (Throws e, w2)
                      | (Returns _, w2) \<Rightarrow>
                          (Returns (Responded 200
                             (MessageData ''Wallet address saved'' (WalletAddressDoc record))), w2)))
      | _ \<Rightarrow> (Throws ''address.toLowerCase is not a function'', w))"

definition post_wallet_address :: "lib \<Rightarrow> request \<Rightarrow> world \<Rightarrow> outcome \<times> world" where
  "post_wallet_address L req w =
     (case connectDB w of
        (Throws e, w1) \<Rightarrow> (Rejected e, w1)
      | (Returns _, w1) \<Rightarrow>
          (let addr = field req ''address''
           in if \<not> truthy addr
              then (Responded 400 (Message ''Address is required''), w1)
              else
                (case post_wallet_address_try L addr w1 of
                   (Throws e, w2) \<Rightarrow>
                     (Responded 500 (Message ''Server error''), emit (ConsoleError [e]) w2)
                 | (Returns r, w2) \<Rightarrow> (r, w2))))"

section \<open>Sample inputs\<close>

text \<open>
  A stand-in for the libraries, to run the model on examples: a string of decimal
  digits parses to its value and any other string to NaN, lower-casing acts on the
  letters A to Z, a token verifies when it is the signing key itself, and a hash is the
  password behind a salt.
\<close>

definition sample_lib :: lib where
  "sample_lib =
     \<lparr>StringToNumber =
        (\<lambda>s. if s \<noteq> [] \<and> list_all (\<lambda>c. 48 \<le> (of_char c :: nat) \<and> (of_char c :: nat) \<le> 57) s
              then Fin (of_nat (foldl (\<lambda>n c. 10 * n + (of_char c - 48)) 0 s))
              else NaN),
      toLowerCase =
        map (\<lambda>c. if 65 \<le> (of_char c :: nat) \<and> (of_char c :: nat) \<le> 90
                  then char_of (of_char c + 32 :: nat) else c),
      jwt_verify = (\<lambda>t k n. k = Some t),
      jwt_sign = (\<lambda>k n d. case k of
                     None \<Rightarrow> Throws ''secretOrPrivateKey must have a value''
                   | Some s \<Rightarrow> Returns s),
      bcrypt_hash = (\<lambda>p r s. Returns (replicate s CHR ''$'' @ p)),
      bcrypt_compare = (\<lambda>p h. case (p, h) of
                     (JStr s, Some t) \<Rightarrow> Returns (dropWhile (\<lambda>c. c = CHR ''$'') t = s)
                   | _ \<Rightarrow> Throws ''data and hash must be strings'')\<rparr>"

text \<open>
  The server as it starts, with an empty database and every variable set; the same
  server once it is connected; and the server in front of a database that refuses the
  first connection.
\<close>

definition start :: world where
  "start =
     \<lparr>isConnected = False,
      environment = \<lparr>Database_URL = Some ''mongodb://db'', JWT_SECRET = Some ''key'',
                     ADMIN_PASSWORD = Some ''correct horse''\<rparr>,
      db = \<lparr>Admin = [], PresaleEnd = [], ProgressBar = [], WalletAddress = []\<rparr>,
      now = 0, seed = 2, faults = [], trace = []\<rparr>"

definition online :: world where
  "online = start\<lparr>isConnected := True\<rparr>"

definition unreachable :: world where
  "unreachable = start\<lparr>faults := [Some ''ECONNREFUSED'']\<rparr>"

definition no_request :: request where
  "no_request = \<lparr>authorization = None, body = Map.empty\<rparr>"

text \<open>A request that carries the header \<open>h\<close> and an empty body.\<close>

definition bearer :: "string \<Rightarrow> request" where
  "bearer h = \<lparr>authorization = Some h, body = Map.empty\<rparr>"

text \<open>A request with the header \<open>h\<close> (if any) whose body has the one field \<open>k\<close>.\<close>

definition posting :: "string option \<Rightarrow> string \<Rightarrow> jsval \<Rightarrow> request" where
  "posting h k v = \<lparr>authorization = h, body = [k \<mapsto> v]\<rparr>"

text \<open>The server at its start in front of a database that holds the one admin \<open>a\<close>.\<close>

definition with_admin :: "admin \<Rightarrow> world" where
  "with_admin a = start\<lparr>db := (db start)\<lparr>Admin := [a]\<rparr>\<rparr>"

section \<open>Database calls that do not throw\<close>

lemma call_quiet:
  "quiet (Suc n) w \<Longrightarrow> call ev w = (Returns (), emit ev (w\<lparr>faults := tl (faults w)\<rparr>))"
  by (cases w; cases "faults w") (auto simp: call_def quiet_def)

lemma query_quiet:
  "quiet (Suc n) w \<Longrightarrow>
   query ev f w = (Returns (f (db w)), emit ev (w\<lparr>faults := tl (faults w)\<rparr>))"
  by (simp add: query_def call_quiet emit_def)

lemma quiet_1_cases: "quiet 1 w \<Longrightarrow> faults w = [] \<or> (\<exists>fs. faults w = None # fs)"
  by (cases "faults w") (auto simp: quiet_def)

lemma quiet_2_cases:
  "quiet 2 w \<Longrightarrow> faults w = [] \<or> faults w = [None] \<or> (\<exists>fs. faults w = None # None # fs)"
  by (cases "faults w"; cases "tl (faults w)") (auto simp: quiet_def numeral_2_eq_2)

section \<open>What the connection changes\<close>

lemma connectDB_Returns:
  "connectDB w = (Returns u, w1) \<Longrightarrow>
   isConnected w1 \<and> db w1 = db w \<and> environment w1 = environment w \<and> now w1 = now w \<and>
   seed w1 = seed w \<and>
   (trace w1 = trace w \<or>
    trace w1 = trace w @ [Connect (Database_URL (environment w)), ConsoleLog ''MongoDB Connected''])"
  by (auto simp: connectDB_def call_def emit_def split: if_splits list.splits option.splits)

lemma connectDB_Throws:
  "connectDB w = (Throws e, w1) \<Longrightarrow>
   \<not> isConnected w \<and> \<not> isConnected w1 \<and> db w1 = db w \<and> environment w1 = environment w \<and>
   trace w1 = trace w @ [Connect (Database_URL (environment w))]"
  by (auto simp: connectDB_def call_def emit_def split: if_splits list.splits option.splits)

section \<open>The connection flag\<close>




section \<open>The guard of the protected routes\<close>

lemma split_no_separator: "c \<notin> set s \<Longrightarrow> split c s = [s]"
  by (induction s) auto

lemma authenticateJWT_pass:
  "bearer_token req = Some t \<Longrightarrow> t \<noteq> [] \<Longrightarrow>
   jwt_verify L t (JWT_SECRET (environment w)) (now w) \<Longrightarrow>
   authenticateJWT L handler req w = handler req w"
  by (simp add: authenticateJWT_def)

text \<open>
  Claim C8. On a protected route, for every wrapped handler: when no token can be taken
  from the authorization header (the expression of line 62 is \<^verbatim>\<open>undefined\<close> or the
  empty string), the guard answers 401 and leaves the world as it was, whatever the
  handler is, so the handler has not run; when a token is taken and \<^verbatim>\<open>jwt.verify\<close> throws for it under the
  configured key, the guard answers 403, again without the handler; when the
  verification succeeds, the request is the handler's, and on
  \<^verbatim>\<open>GET /api/verify-token\<close> the answer is 200 with the message \<^verbatim>\<open>Token valid\<close>.
\<close>

theorem authenticateJWT_guard:
  "((bearer_token req = None \<or> bearer_token req = Some []) \<longrightarrow>
      authenticateJWT L handler req w = (Responded 401 (Message ''Unauthorized''), w)) \<and>
   (bearer_token req = Some t \<and> t \<noteq> [] \<and>
    \<not> jwt_verify L t (JWT_SECRET (environment w)) (now w) \<longrightarrow>
      authenticateJWT L handler req w = (Responded 403 (Message ''Invalid token''), w)) \<and>
   (bearer_token req = Some t \<and> t \<noteq> [] \<and>
    jwt_verify L t (JWT_SECRET (environment w)) (now w) \<longrightarrow>
      authenticateJWT L handler req w = handler req w \<and>
      route_get_verify_token L req w = (Responded 200 (Message ''Token valid''), w))"
  by (auto simp: authenticateJWT_def route_get_verify_token_def get_verify_token_def)

theorem authenticateJWT_guard_witness:
  "bearer_token no_request = None \<and>
   authenticateJWT sample_lib get_verify_token no_request start =
     (Responded 401 (Message ''Unauthorized''), start) \<and>
   bearer_token (bearer ''Bearer '') = Some [] \<and>
   authenticateJWT sample_lib get_verify_token (bearer ''Bearer '') start =
     (Responded 401 (Message ''Unauthorized''), start) \<and>
   bearer_token (bearer ''Bearer forged'') = Some ''forged'' \<and>
   \<not> jwt_verify sample_lib ''forged'' (JWT_SECRET (environment start)) (now start) \<and>
   authenticateJWT sample_lib get_verify_token (bearer ''Bearer forged'') start =
     (Responded 403 (Message ''Invalid token''), start) \<and>
   bearer_token (bearer ''Bearer key'') = Some ''key'' \<and>
   jwt_verify sample_lib ''key'' (JWT_SECRET (environment start)) (now start) \<and>
   route_get_verify_token sample_lib (bearer ''Bearer key'') start =
     (Responded 200 (Message ''Token valid''), start)"
  using authenticateJWT_guard [where req = no_request and L = sample_lib and w = start
      and handler = get_verify_token]
    authenticateJWT_guard [where req = "bearer ''Bearer ''" and L = sample_lib and w = start
      and handler = get_verify_token]
    authenticateJWT_guard [where req = "bearer ''Bearer forged''" and t = "''forged''"
      and L = sample_lib and w = start and handler = get_verify_token]
    authenticateJWT_guard [where req = "bearer ''Bearer key''" and t = "''key''"
      and L = sample_lib and w = start and handler = get_verify_token]
  by (simp add: bearer_token_def no_request_def bearer_def item_def sample_lib_def start_def)

text \<open>
  Claim C9. When the authorization header is present and has no space in it, the split
  of line 62 has one piece only, so the token is \<^verbatim>\<open>undefined\<close> and the guard
  answers 401, not 403, for every library: also for one that would accept the whole
  header as a valid token.
\<close>

theorem header_without_space:
  "authorization req = Some h \<Longrightarrow> CHR '' '' \<notin> set h \<Longrightarrow>
   bearer_token req = None \<and>
   authenticateJWT L handler req w = (Responded 401 (Message ''Unauthorized''), w)"
  by (simp add: authenticateJWT_def bearer_token_def split_no_separator item_def)

theorem header_without_space_witness:
  "authorization (bearer ''key'') = Some ''key'' \<and> CHR '' '' \<notin> set ''key'' \<and>
   jwt_verify sample_lib ''key'' (JWT_SECRET (environment start)) (now start) \<and>
   bearer_token (bearer ''key'') = None \<and>
   authenticateJWT sample_lib get_verify_token (bearer ''key'') start =
     (Responded 401 (Message ''Unauthorized''), start)"
  using header_without_space [where req = "bearer ''key''" and h = "''key''"
      and L = sample_lib and w = start and handler = get_verify_token]
  by (simp add: bearer_def sample_lib_def start_def)

section \<open>Reading a singleton that was never written\<close>

text \<open>
  Claim C7. When the collection of the singleton is empty, the connection is there (or
  the attempt to connect succeeds) and the query does not throw,
  \<^verbatim>\<open>GET /api/presale-end\<close> answers 200 with the message
  \<^verbatim>\<open>No presale end date set yet\<close>, and \<^verbatim>\<open>GET /api/progress-bar\<close> answers 200 with the
  message \<^verbatim>\<open>No progress bar value set yet\<close>; neither changes the database.
\<close>

theorem placeholder_when_empty:
  "(connectDB w = (Returns (), w1) \<and> quiet 1 w1 \<and> PresaleEnd (db w) = [] \<longrightarrow>
      fst (get_presale_end req w) = Responded 200 (Message ''No presale end date set yet'') \<and>
      db (snd (get_presale_end req w)) = db w) \<and>
   (connectDB w = (Returns (), w1) \<and> quiet 1 w1 \<and> ProgressBar (db w) = [] \<longrightarrow>
      fst (get_progress_bar req w) = Responded 200 (Message ''No progress bar value set yet'') \<and>
      db (snd (get_progress_bar req w)) = db w)"
proof -
  have q: "query ev f w1 = (Returns (f (db w)), emit ev (w1\<lparr>faults := tl (faults w1)\<rparr>))"
    if "connectDB w = (Returns (), w1)" "quiet 1 w1" for ev and f :: "database \<Rightarrow> 'x"
    using that query_quiet [of 0 w1 ev f] connectDB_Returns [of w "()" w1] by simp
  show ?thesis
    by (auto simp: get_presale_end_def get_progress_bar_def q emit_def
          dest: connectDB_Returns)
qed

theorem placeholder_when_empty_witness:
  "connectDB start = (Returns (), snd (connectDB start)) \<and> quiet 1 (snd (connectDB start)) \<and>
   PresaleEnd (db start) = [] \<and> ProgressBar (db start) = [] \<and>
   fst (get_presale_end no_request start) =
     Responded 200 (Message ''No presale end date set yet'') \<and>
   fst (get_progress_bar no_request start) =
     Responded 200 (Message ''No progress bar value set yet'')"
proof -
  have c: "connectDB start = (Returns (), snd (connectDB start))"
    by (simp add: connectDB_def call_def start_def)
  have q: "quiet 1 (snd (connectDB start))"
    by (simp add: connectDB_def call_def start_def quiet_def emit_def)
  have e: "PresaleEnd (db start) = []" "ProgressBar (db start) = []"
    by (simp_all add: start_def)
  show ?thesis
    using placeholder_when_empty [of start "snd (connectDB start)" no_request] c q e
    by simp
qed

section \<open>Passwords that are too short\<close>

text \<open>
  Claim C3. When the request has no password, or a password string of fewer than 8
  characters, \<^verbatim>\<open>POST /api/authenticate\<close> leaves the database as it was and makes no
  call of \<^verbatim>\<open>Admin.findOne\<close>: the events it adds to the trace hold no lookup of the
  credential. When the call of \<open>connectDB\<close> that opens the handler returns, the answer
  is 400 and the world is the one \<open>connectDB\<close> left.
\<close>

theorem short_password_rejected:
  assumes "field req ''password'' = JUndefined \<or>
           (\<exists>s. field req ''password'' = JStr s \<and> length s < 8)"
  shows "db (snd (post_authenticate L req w)) = db w \<and>
         (\<exists>evs. trace (snd (post_authenticate L req w)) = trace w @ evs \<and>
                AdminFindOne \<notin> set evs) \<and>
         (connectDB w = (Returns (), w1) \<longrightarrow>
            post_authenticate L req w =
              (Responded 400 (Message ''Password must be at least 8 characters''), w1))"
proof -
  from assms have short: "\<not> truthy (field req ''password'') \<or> too_short (field req ''password'')"
    by (auto simp: too_short_def)
  obtain r w' where c: "connectDB w = (r, w')"
    by (cases "connectDB w")
  show ?thesis
  proof (cases r)
    case (Returns u)
    with c short connectDB_Returns [of w u w'] show ?thesis
      by (auto simp: post_authenticate_def Let_def)
  next
    case (Throws e)
    with c connectDB_Throws [of w e w'] show ?thesis
      by (auto simp: post_authenticate_def)
  qed
qed

theorem short_password_rejected_witness:
  "field no_request ''password'' = JUndefined \<and>
   field (posting None ''password'' (JStr ''1234567'')) ''password'' = JStr ''1234567'' \<and>
   length ''1234567'' < 8 \<and>
   connectDB online = (Returns (), online) \<and>
   post_authenticate sample_lib no_request online =
     (Responded 400 (Message ''Password must be at least 8 characters''), online) \<and>
   post_authenticate sample_lib (posting None ''password'' (JStr ''1234567'')) online =
     (Responded 400 (Message ''Password must be at least 8 characters''), online)"
proof -
  have a: "field no_request ''password'' = JUndefined"
    by (simp add: field_def no_request_def)
  have b: "field (posting None ''password'' (JStr ''1234567'')) ''password'' = JStr ''1234567''"
    by (simp add: field_def posting_def)
  have c: "connectDB online = (Returns (), online)"
    by (simp add: connectDB_def online_def)
  show ?thesis
    using short_password_rejected [of no_request sample_lib online online]
      short_password_rejected [of "posting None ''password'' (JStr ''1234567'')"
        sample_lib online online] a b c
    by simp
qed

section \<open>The admin account is set up once\<close>

lemma initializeAdmin_returns:
  "connectDB w = (Returns (), w1) \<Longrightarrow> fst (initializeAdmin L w) = Returns ()"
  by (simp add: initializeAdmin_def split: prod.splits completion.splits)

lemma initializeAdmin_try_initialized:
  "Admin (db w) = a # rest \<Longrightarrow> initialized a \<Longrightarrow> db (snd (initializeAdmin_try L w)) = db w"
  by (cases "faults w")
     (auto simp: initializeAdmin_try_def query_def call_def emit_def findOne_def
           split: option.splits)

lemma initializeAdmin_try_quiet:
  assumes "quiet 2 w" "ADMIN_PASSWORD (environment w) = Some p" "8 \<le> length p"
    "bcrypt_hash L p 10 (seed w) = Returns h"
    "\<not> (case findOne (Admin (db w)) of None \<Rightarrow> False | Some a \<Rightarrow> initialized a)"
  shows "fst (initializeAdmin_try L w) = Returns () \<and>
         db (snd (initializeAdmin_try L w)) =
           (case findOne (Admin (db w)) of
              Some a \<Rightarrow> (db w)\<lparr>Admin := (Admin (db w))[0 := a\<lparr>password := Some h, initialized := True\<rparr>]\<rparr>
            | None \<Rightarrow> (db w)\<lparr>Admin := Admin (db w) @ [\<lparr>password = Some h, initialized = True\<rparr>]\<rparr>)"
  using quiet_2_cases [OF assms(1)] assms(2-5)
  by (auto simp: initializeAdmin_try_def query_def mutate_def call_def emit_def Let_def
        split: option.splits)

lemma initializeAdmin_db:
  "connectDB w = (Returns (), w1) \<Longrightarrow>
   db (snd (initializeAdmin L w)) = db (snd (initializeAdmin_try L w1))"
  by (simp add: initializeAdmin_def emit_def split: prod.splits completion.splits)

text \<open>
  Claim C1. Let the call of \<open>connectDB\<close> that opens \<open>initializeAdmin\<close> return. Then
  \<open>initializeAdmin\<close> returns, and:
  \<^item> when the admin record (the one \<^verbatim>\<open>Admin.findOne()\<close> returns, the first of the
    collection and under the data model the only one) has \<open>initialized\<close> set, the
    database, and with it the record and its hash, is what it was;
  \<^item> when the secret is set and has at least 8 characters, \<^verbatim>\<open>bcrypt.hash\<close> gives the
    hash \<open>h\<close> for the salt it draws, and neither database call throws: a record that is
    not initialized gets the hash \<open>h\<close> and \<open>initialized\<close> set, in its place; and an empty
    collection gets exactly one record, with the hash \<open>h\<close> and \<open>initialized\<close> set.
\<close>

theorem initializeAdmin_cases:
  assumes "connectDB w = (Returns (), w1)"
  shows "fst (initializeAdmin L w) = Returns () \<and>
    (Admin (db w) = a # rest \<and> initialized a \<longrightarrow> db (snd (initializeAdmin L w)) = db w) \<and>
    (ADMIN_PASSWORD (environment w) = Some p \<and> 8 \<le> length p \<and>
     bcrypt_hash L p 10 (seed w) = Returns h \<and> quiet 2 w1 \<longrightarrow>
       (Admin (db w) = a # rest \<and> \<not> initialized a \<longrightarrow>
          db (snd (initializeAdmin L w)) =
            (db w)\<lparr>Admin := a\<lparr>password := Some h, initialized := True\<rparr> # rest\<rparr>) \<and>
       (Admin (db w) = [] \<longrightarrow>
          db (snd (initializeAdmin L w)) =
            (db w)\<lparr>Admin := [\<lparr>password = Some h, initialized = True\<rparr>]\<rparr>))"
proof -
  note c = connectDB_Returns [OF assms]
  have "db (snd (initializeAdmin L w)) = db w" if "Admin (db w) = a # rest" "initialized a"
    using that initializeAdmin_try_initialized [of w1 a rest L]
    by (simp add: initializeAdmin_db [OF assms] c)
  moreover have "db (snd (initializeAdmin L w)) =
      (case findOne (Admin (db w)) of
         Some a \<Rightarrow> (db w)\<lparr>Admin := (Admin (db w))[0 := a\<lparr>password := Some h, initialized := True\<rparr>]\<rparr>
       | None \<Rightarrow> (db w)\<lparr>Admin := Admin (db w) @ [\<lparr>password = Some h, initialized = True\<rparr>]\<rparr>)"
    if "ADMIN_PASSWORD (environment w) = Some p" "8 \<le> length p"
      "bcrypt_hash L p 10 (seed w) = Returns h" "quiet 2 w1"
      "\<not> (case findOne (Admin (db w)) of None \<Rightarrow> False | Some a \<Rightarrow> initialized a)"
    using that initializeAdmin_try_quiet [of w1 p L h]
    by (simp add: initializeAdmin_db [OF assms] c split: option.splits)
  ultimately show ?thesis
    using initializeAdmin_returns [OF assms, of L]
    by (auto simp: findOne_def)
qed

theorem initializeAdmin_cases_witness:
  "db (snd (initializeAdmin sample_lib (with_admin \<lparr>password = Some ''old'', initialized = True\<rparr>))) =
     db (with_admin \<lparr>password = Some ''old'', initialized = True\<rparr>) \<and>
   Admin (db (snd (initializeAdmin sample_lib (with_admin \<lparr>password = None, initialized = False\<rparr>)))) =
     [\<lparr>password = Some ''$$correct horse'', initialized = True\<rparr>] \<and>
   Admin (db (snd (initializeAdmin sample_lib start))) =
     [\<lparr>password = Some ''$$correct horse'', initialized = True\<rparr>] \<and>
   fst (initializeAdmin sample_lib start) = Returns ()"
proof -
  let ?old = "\<lparr>password = Some ''old'', initialized = True\<rparr>"
  let ?new = "\<lparr>password = None, initialized = False\<rparr>"
  have c: "connectDB (with_admin a) = (Returns (), snd (connectDB (with_admin a)))"
    "connectDB start = (Returns (), snd (connectDB start))" for a
    by (simp_all add: connectDB_def call_def start_def with_admin_def)
  have q: "quiet 2 (snd (connectDB (with_admin a)))" "quiet 2 (snd (connectDB start))" for a
    by (simp_all add: connectDB_def call_def start_def with_admin_def quiet_def emit_def)
  have h: "bcrypt_hash sample_lib ''correct horse'' 10 2 = Returns ''$$correct horse''"
    by (simp add: sample_lib_def numeral_2_eq_2)
  have e: "ADMIN_PASSWORD (environment (with_admin a)) = Some ''correct horse''"
    "ADMIN_PASSWORD (environment start) = Some ''correct horse''"
    "seed (with_admin a) = 2" "seed start = 2"
    "Admin (db (with_admin a)) = [a]" "Admin (db start) = []" for a
    by (simp_all add: start_def with_admin_def)
  show ?thesis
    using initializeAdmin_cases [OF c(1), where a = ?old and rest = "[]" and L = sample_lib]
      initializeAdmin_cases [OF c(1), where a = ?new and rest = "[]" and L = sample_lib
        and p = "''correct horse''" and h = "''$$correct horse''"]
      initializeAdmin_cases [OF c(2), where L = sample_lib
        and p = "''correct horse''" and h = "''$$correct horse''"]
      q h e
    by simp
qed

section \<open>The endpoint that sets up the admin account\<close>

text \<open>
  Claim C2, as the code has it. Whenever the call of \<open>connectDB\<close> that opens
  \<open>initializeAdmin\<close> returns (the server is connected, or the attempt to connect
  succeeds), \<^verbatim>\<open>GET /api/init-admin\<close> answers 200 with the text
  \<^verbatim>\<open>Tried initializing admin\<close>, whatever the secret is and whatever the database calls
  do. In particular, when the secret is absent or shorter than 8 characters and the
  lookup finds no initialized record, the database is left as it was, the failure is
  written to the console, and the answer is still the 200.
\<close>

theorem init_admin_acknowledges:
  assumes "connectDB w = (Returns (), w1)"
  shows "fst (get_init_admin L req w) = Responded 200 (Text ''Tried initializing admin'') \<and>
    ((ADMIN_PASSWORD (environment w) = None \<or>
      (\<exists>p. ADMIN_PASSWORD (environment w) = Some p \<and> length p < 8)) \<and>
     quiet 1 w1 \<and> (Admin (db w) = [] \<or> (\<exists>a rest. Admin (db w) = a # rest \<and> \<not> initialized a)) \<longrightarrow>
       db (snd (get_init_admin L req w)) = db w \<and>
       trace (snd (get_init_admin L req w)) =
         trace w1 @ [AdminFindOne,
                     ConsoleError [''ADMIN_PASSWORD must be set and at least 8 characters.'']])"
proof -
  note c = connectDB_Returns [OF assms]
  have 1: "fst (get_init_admin L req w) = Responded 200 (Text ''Tried initializing admin'')"
    using initializeAdmin_returns [OF assms, of L]
    by (cases "initializeAdmin L w") (auto simp: get_init_admin_def split: completion.splits)
  have 2: "db (snd (get_init_admin L req w)) = db w \<and>
       trace (snd (get_init_admin L req w)) =
         trace w1 @ [AdminFindOne,
                     ConsoleError [''ADMIN_PASSWORD must be set and at least 8 characters.'']]"
    if "ADMIN_PASSWORD (environment w) = None \<or>
        (\<exists>p. ADMIN_PASSWORD (environment w) = Some p \<and> length p < 8)"
       "quiet 1 w1"
       "Admin (db w) = [] \<or> (\<exists>a rest. Admin (db w) = a # rest \<and> \<not> initialized a)"
    using that c assms quiet_1_cases [OF that(2)]
    by (auto simp: get_init_admin_def initializeAdmin_def initializeAdmin_try_def query_def
          call_def emit_def findOne_def)
  from 1 2 show ?thesis by blast
qed

theorem init_admin_acknowledges_witness:
  "fst (get_init_admin sample_lib no_request
          (start\<lparr>environment := (environment start)\<lparr>ADMIN_PASSWORD := None\<rparr>\<rparr>)) =
     Responded 200 (Text ''Tried initializing admin'') \<and>
   trace (snd (get_init_admin sample_lib no_request
          (start\<lparr>environment := (environment start)\<lparr>ADMIN_PASSWORD := None\<rparr>\<rparr>))) =
     [Connect (Some ''mongodb://db''), ConsoleLog ''MongoDB Connected'', AdminFindOne,
      ConsoleError [''ADMIN_PASSWORD must be set and at least 8 characters.'']] \<and>
   fst (get_init_admin sample_lib no_request
          (with_admin \<lparr>password = None, initialized = False\<rparr>
             \<lparr>environment := (environment start)\<lparr>ADMIN_PASSWORD := Some ''short''\<rparr>\<rparr>)) =
     Responded 200 (Text ''Tried initializing admin'') \<and>
   Admin (db (snd (get_init_admin sample_lib no_request
          (with_admin \<lparr>password = None, initialized = False\<rparr>
             \<lparr>environment := (environment start)\<lparr>ADMIN_PASSWORD := Some ''short''\<rparr>\<rparr>)))) =
     [\<lparr>password = None, initialized = False\<rparr>]"
proof -
  let ?w = "start\<lparr>environment := (environment start)\<lparr>ADMIN_PASSWORD := None\<rparr>\<rparr>"
  let ?v = "with_admin \<lparr>password = None, initialized = False\<rparr>
             \<lparr>environment := (environment start)\<lparr>ADMIN_PASSWORD := Some ''short''\<rparr>\<rparr>"
  have c: "connectDB ?w = (Returns (), snd (connectDB ?w))"
    "connectDB ?v = (Returns (), snd (connectDB ?v))"
    by (simp_all add: connectDB_def call_def start_def with_admin_def)
  have q: "quiet 1 (snd (connectDB ?w))" "quiet 1 (snd (connectDB ?v))"
    "trace (snd (connectDB ?w)) = [Connect (Some ''mongodb://db''), ConsoleLog ''MongoDB Connected'']"
    by (simp_all add: connectDB_def call_def start_def with_admin_def quiet_def emit_def)
  have e: "ADMIN_PASSWORD (environment ?w) = None" "Admin (db ?w) = []"
    "ADMIN_PASSWORD (environment ?v) = Some ''short''" "length ''short'' < 8"
    "Admin (db ?v) = [\<lparr>password = None, initialized = False\<rparr>]"
    by (simp_all add: start_def with_admin_def)
  show ?thesis
    using init_admin_acknowledges [OF c(1), of sample_lib no_request]
      init_admin_acknowledges [OF c(2), of sample_lib no_request] q e by simp
qed

text \<open>
  Claim C2 as the specification states it, for every environment, fails: the call of
  \<open>connectDB\<close> stands before the \<^verbatim>\<open>try\<close> block of \<open>initializeAdmin\<close>, and the handler
  has no \<^verbatim>\<open>try\<close> block of its own. In front of a database that refuses the connection
  the handler's promise is rejected and line 271, which sends the acknowledgment, is
  not reached.
\<close>

theorem init_admin_unreachable:
  "get_init_admin sample_lib no_request unreachable =
     (Rejected ''ECONNREFUSED'', start\<lparr>trace := [Connect (Some ''mongodb://db'')]\<rparr>) \<and>
   fst (get_init_admin sample_lib no_request unreachable) \<noteq>
     Responded 200 (Text ''Tried initializing admin'')"
  by (simp add: get_init_admin_def initializeAdmin_def connectDB_def call_def emit_def
        unreachable_def start_def)

section \<open>The progress bar\<close>

lemma clamp_cases:
  "(Number L v = NaN \<longrightarrow> clamp L v = NaN) \<and>
   (Number L v = NegInf \<longrightarrow> clamp L v = Fin 0) \<and>
   (Number L v = NegZero \<longrightarrow> clamp L v = Fin 0) \<and>
   (Number L v = PosInf \<longrightarrow> clamp L v = Fin 100) \<and>
   (Number L v = Fin x \<longrightarrow>
      clamp L v = (if x < 0 then Fin 0 else if 100 < x then Fin 100 else Fin x))"
  by (auto simp: clamp_def Math_min_def Math_max_def)

lemma post_progress_bar_try_quiet:
  assumes "quiet 2 w"
  shows "post_progress_bar_try n w =
     (case ProgressBar (db w) of
        [] \<Rightarrow> (Returns (Responded 200 (MessageData ''Progress bar value saved''
                   (ProgressBarDoc \<lparr>value = n, progress_createdAt = now w\<rparr>))),
               emit (ProgressBarCreate n) (emit ProgressBarFindOne
                 (w\<lparr>faults := tl (tl (faults w)),
                    db := (db w)\<lparr>ProgressBar := [\<lparr>value = n, progress_createdAt = now w\<rparr>]\<rparr>\<rparr>)))
      | r # rest \<Rightarrow> (Returns (Responded 200 (MessageData ''Progress bar value saved''
                   (ProgressBarDoc (r\<lparr>value := n\<rparr>)))),
               emit (ProgressBarSave n) (emit ProgressBarFindOne
                 (w\<lparr>faults := tl (tl (faults w)),
                    db := (db w)\<lparr>ProgressBar := r\<lparr>value := n\<rparr> # rest\<rparr>\<rparr>))))"
  using quiet_2_cases [OF assms]
  by (cases w)
     (auto simp: post_progress_bar_try_def query_def mutate_def call_def emit_def Let_def
        findOne_def split: list.splits)

lemma post_progress_bar_quiet:
  assumes "connectDB w = (Returns (), w1)" "quiet 2 w1" "field req ''value'' = v"
    "v \<noteq> JUndefined"
  shows "fst (post_progress_bar L req w) =
           Responded 200 (MessageData ''Progress bar value saved'' (ProgressBarDoc
             (case ProgressBar (db w) of
                [] \<Rightarrow> \<lparr>value = clamp L v, progress_createdAt = now w\<rparr>
              | r # rest \<Rightarrow> r\<lparr>value := clamp L v\<rparr>))) \<and>
         ProgressBar (db (snd (post_progress_bar L req w))) =
           (case ProgressBar (db w) of
              [] \<Rightarrow> [\<lparr>value = clamp L v, progress_createdAt = now w\<rparr>]
            | r # rest \<Rightarrow> r\<lparr>value := clamp L v\<rparr> # rest)"
  using assms(3,4) connectDB_Returns [OF assms(1)]
  by (simp add: post_progress_bar_def assms(1) post_progress_bar_try_quiet [OF assms(2)]
        emit_def split: list.splits)

text \<open>
  Claim C4. Let a request to \<^verbatim>\<open>POST /api/progress-bar\<close> pass the guard, carry a value
  \<open>v\<close> that is not \<^verbatim>\<open>undefined\<close>, and meet a connection that is there (or can be
  made) and a database whose two calls do not throw. Then the answer is 200 with the
  saved record, and the record that \<^verbatim>\<open>findOne\<close> returns afterwards (the existing
  first record, updated in place, or the one record created) holds the clamp of
  \<^verbatim>\<open>Number(v)\<close>: 0 when the number is below 0, 100 when it is above 100, and the number
  itself when it is from 0 to 100. The two infinities clamp to 0 and to 100, and
  negative zero is stored as the zero it is equal to.
\<close>

theorem progress_bar_clamped:
  assumes "bearer_token req = Some t" "t \<noteq> []"
    "jwt_verify L t (JWT_SECRET (environment w)) (now w)"
    "connectDB w = (Returns (), u)" "quiet 2 u"
    "field req ''value'' = v" "v \<noteq> JUndefined"
  shows "(\<exists>r. findOne (ProgressBar (db (snd (route_post_progress_bar L req w)))) = Some r \<and>
             value r = clamp L v \<and>
             fst (route_post_progress_bar L req w) =
               Responded 200 (MessageData ''Progress bar value saved'' (ProgressBarDoc r))) \<and>
         ProgressBar (db (snd (route_post_progress_bar L req w))) =
           (case ProgressBar (db w) of
              [] \<Rightarrow> [\<lparr>value = clamp L v, progress_createdAt = now w\<rparr>]
            | r # rest \<Rightarrow> r\<lparr>value := clamp L v\<rparr> # rest) \<and>
         (Number L v = Fin x \<and> x < 0 \<longrightarrow> clamp L v = Fin 0) \<and>
         (Number L v = Fin x \<and> 100 < x \<longrightarrow> clamp L v = Fin 100) \<and>
         (Number L v = Fin x \<and> 0 \<le> x \<and> x \<le> 100 \<longrightarrow> clamp L v = Fin x) \<and>
         (Number L v = NegInf \<longrightarrow> clamp L v = Fin 0) \<and>
         (Number L v = PosInf \<longrightarrow> clamp L v = Fin 100) \<and>
         (Number L v = NegZero \<longrightarrow> clamp L v = Fin 0)"
proof -
  have r: "route_post_progress_bar L req w = post_progress_bar L req w"
    using assms(1-3) by (simp add: route_post_progress_bar_def authenticateJWT_pass)
  show ?thesis
    using post_progress_bar_quiet [OF assms(4-7), of L] clamp_cases [of L v x]
    by (auto simp: r findOne_def split: list.splits)
qed

theorem progress_bar_clamped_witness:
  "ProgressBar (db (snd (route_post_progress_bar sample_lib
      (posting (Some ''Bearer key'') ''value'' (JNum (Fin (- 5)))) start))) =
     [\<lparr>value = Fin 0, progress_createdAt = 0\<rparr>] \<and>
   ProgressBar (db (snd (route_post_progress_bar sample_lib
      (posting (Some ''Bearer key'') ''value'' (JNum (Fin 150))) start))) =
     [\<lparr>value = Fin 100, progress_createdAt = 0\<rparr>] \<and>
   ProgressBar (db (snd (route_post_progress_bar sample_lib
      (posting (Some ''Bearer key'') ''value'' (JNum (Fin 42))) start))) =
     [\<lparr>value = Fin 42, progress_createdAt = 0\<rparr>] \<and>
   ProgressBar (db (snd (route_post_progress_bar sample_lib
      (posting (Some ''Bearer key'') ''value'' (JNum NegInf)) start))) =
     [\<lparr>value = Fin 0, progress_createdAt = 0\<rparr>] \<and>
   ProgressBar (db (snd (route_post_progress_bar sample_lib
      (posting (Some ''Bearer key'') ''value'' (JNum PosInf)) start))) =
     [\<lparr>value = Fin 100, progress_createdAt = 0\<rparr>] \<and>
   ProgressBar (db (snd (route_post_progress_bar sample_lib
      (posting (Some ''Bearer key'') ''value'' (JNum NegZero)) start))) =
     [\<lparr>value = Fin 0, progress_createdAt = 0\<rparr>]"
proof -
  let ?req = "posting (Some ''Bearer key'') ''value''"
  have a: "bearer_token (?req v) = Some ''key''" "''key'' \<noteq> []"
    "jwt_verify sample_lib ''key'' (JWT_SECRET (environment start)) (now start)" for v
    by (simp_all add: bearer_token_def posting_def item_def sample_lib_def start_def)
  have c: "connectDB start = (Returns (), snd (connectDB start))"
    by (simp add: connectDB_def call_def start_def)
  have q: "quiet 2 (snd (connectDB start))"
    by (simp add: connectDB_def call_def start_def quiet_def emit_def)
  have f: "field (?req v) ''value'' = v" for v
    by (simp add: field_def posting_def)
  have e: "ProgressBar (db start) = []" "now start = 0"
    by (simp_all add: start_def)
  have inst: "ProgressBar (db (snd (route_post_progress_bar sample_lib (?req v) start))) =
        [\<lparr>value = clamp sample_lib v, progress_createdAt = 0\<rparr>] \<and>
      (Number sample_lib v = Fin x \<and> x < 0 \<longrightarrow> clamp sample_lib v = Fin 0) \<and>
      (Number sample_lib v = Fin x \<and> 100 < x \<longrightarrow> clamp sample_lib v = Fin 100) \<and>
      (Number sample_lib v = Fin x \<and> 0 \<le> x \<and> x \<le> 100 \<longrightarrow> clamp sample_lib v = Fin x) \<and>
      (Number sample_lib v = NegInf \<longrightarrow> clamp sample_lib v = Fin 0) \<and>
      (Number sample_lib v = PosInf \<longrightarrow> clamp sample_lib v = Fin 100) \<and>
      (Number sample_lib v = NegZero \<longrightarrow> clamp sample_lib v = Fin 0)"
    if "v \<noteq> JUndefined" for v x
    using progress_bar_clamped [OF a(1) [of v] a(2,3) c q f [of v] that, of x] by (simp add: e)
  show ?thesis
    using inst [of "JNum (Fin (- 5))" "- 5"] inst [of "JNum (Fin 150)" 150]
      inst [of "JNum (Fin 42)" 42] inst [of "JNum NegInf" 0] inst [of "JNum PosInf" 0]
      inst [of "JNum NegZero" 0]
    by simp
qed

text \<open>
  Claim C10. When the value is not \<^verbatim>\<open>undefined\<close> and \<^verbatim>\<open>Number\<close> of it is NaN, the
  expression of line 197 is NaN, which is no number from 0 to 100. The handler does not
  answer 400: it answers 500 when a database call throws, and otherwise 200 with a
  record whose value is NaN. When the lookup does not throw, the write that follows it
  (a save of the record found, or a create) is handed NaN.
\<close>

theorem progress_bar_nan:
  assumes "connectDB w = (Returns (), u)" "field req ''value'' = v" "v \<noteq> JUndefined"
    "Number L v = NaN"
  shows "clamp L v = NaN \<and> \<not> (\<exists>x. clamp L v = Fin x \<and> 0 \<le> x \<and> x \<le> 100) \<and>
    (fst (post_progress_bar L req w) = Responded 500 (Message ''Server error'') \<or>
     (\<exists>r. value r = NaN \<and>
          fst (post_progress_bar L req w) =
            Responded 200 (MessageData ''Progress bar value saved'' (ProgressBarDoc r)))) \<and>
    (quiet 1 u \<longrightarrow>
       (\<exists>evs. trace (snd (post_progress_bar L req w)) =
                trace u @ ProgressBarFindOne # ProgressBarSave NaN # evs \<or>
              trace (snd (post_progress_bar L req w)) =
                trace u @ ProgressBarFindOne # ProgressBarCreate NaN # evs))"
proof -
  have n: "clamp L v = NaN"
    using assms(4) by (simp add: clamp_def Math_min_def Math_max_def)
  have p: "post_progress_bar L req w =
      (case post_progress_bar_try NaN u of
         (Throws e, w2) \<Rightarrow> (Responded 500 (Message ''Server error''), emit (ConsoleError [e]) w2)
       | (Returns r, w2) \<Rightarrow> (r, w2))"
    using assms(1-3) by (simp add: post_progress_bar_def n)
  have s: "fst (post_progress_bar L req w) = Responded 500 (Message ''Server error'') \<or>
     (\<exists>r. value r = NaN \<and>
          fst (post_progress_bar L req w) =
            Responded 200 (MessageData ''Progress bar value saved'' (ProgressBarDoc r)))"
    unfolding p
    by (cases "faults u"; cases "tl (faults u)")
       (auto simp: post_progress_bar_try_def query_def mutate_def call_def emit_def Let_def
          split: option.splits)
  have t: "\<exists>evs. trace (snd (post_progress_bar L req w)) =
                trace u @ ProgressBarFindOne # ProgressBarSave NaN # evs \<or>
              trace (snd (post_progress_bar L req w)) =
                trace u @ ProgressBarFindOne # ProgressBarCreate NaN # evs"
    if "quiet 1 u"
    unfolding p using quiet_1_cases [OF that]
    by (cases "tl (faults u)")
       (auto simp: post_progress_bar_try_def query_def mutate_def call_def emit_def Let_def
          split: option.splits)
  from n s t show ?thesis by simp
qed

theorem progress_bar_nan_witness:
  "Number sample_lib (JStr ''abc'') = NaN \<and>
   post_progress_bar sample_lib (posting None ''value'' (JStr ''abc'')) online =
     (Responded 200 (MessageData ''Progress bar value saved''
        (ProgressBarDoc \<lparr>value = NaN, progress_createdAt = 0\<rparr>)),
      online\<lparr>db := (db online)\<lparr>ProgressBar := [\<lparr>value = NaN, progress_createdAt = 0\<rparr>]\<rparr>,
                trace := [ProgressBarFindOne, ProgressBarCreate NaN]\<rparr>) \<and>
   clamp sample_lib (JStr ''abc'') = NaN"
proof -
  let ?req = "posting None ''value'' (JStr ''abc'')"
  have c: "connectDB online = (Returns (), online)"
    by (simp add: connectDB_def online_def)
  have f: "field ?req ''value'' = JStr ''abc''" "JStr ''abc'' \<noteq> JUndefined"
    by (simp_all add: field_def posting_def)
  have n: "Number sample_lib (JStr ''abc'') = NaN"
    by (simp add: sample_lib_def)
  have q: "quiet 1 online"
    by (simp add: quiet_def online_def start_def)
  have run: "post_progress_bar sample_lib ?req online =
     (Responded 200 (MessageData ''Progress bar value saved''
        (ProgressBarDoc \<lparr>value = clamp sample_lib (JStr ''abc''), progress_createdAt = 0\<rparr>)),
      online\<lparr>db := (db online)\<lparr>ProgressBar :=
                   [\<lparr>value = clamp sample_lib (JStr ''abc''), progress_createdAt = 0\<rparr>]\<rparr>,
                trace := [ProgressBarFindOne, ProgressBarCreate (clamp sample_lib (JStr ''abc''))]\<rparr>)"
    by (simp add: post_progress_bar_def post_progress_bar_try_def connectDB_def query_def
          mutate_def call_def emit_def findOne_def f online_def start_def Let_def)
  show ?thesis
    using progress_bar_nan [OF c f n] q run n by simp
qed

section \<open>One record for one wallet address\<close>







section \<open>What holds from one request to the next\<close>

text \<open>
  Two facts about every run of the server. No handler resets the connection flag: once
  it is true it stays true, so every later call of \<open>connectDB\<close> is the one that returns
  at once. And \<open>initializeAdmin\<close>, the one writer of the admin collection, never makes
  a second record: a collection of at most one admin stays one.
\<close>

lemma call_keeps: "isConnected (snd (call ev w)) = isConnected w \<and> db (snd (call ev w)) = db w"
  by (simp add: call_def emit_def split: list.splits option.splits)

lemma query_keeps:
  "isConnected (snd (query ev f w)) = isConnected w \<and> db (snd (query ev f w)) = db w"
  using call_keeps [of ev w]
  by (cases "call ev w") (auto simp: query_def split: completion.splits)

lemma mutate_keeps: "isConnected (snd (mutate ev f w)) = isConnected w"
  using call_keeps [of ev w]
  by (cases "call ev w") (auto simp: mutate_def split: completion.splits)

lemma mutate_keepsD: "mutate ev f w = (r, w') \<Longrightarrow> isConnected w' = isConnected w"
  using mutate_keeps [of ev f w] by simp

lemma mutate_db: "db (snd (mutate ev f w)) = db w \<or> db (snd (mutate ev f w)) = f (db w)"
  using call_keeps [of ev w]
  by (cases "call ev w") (auto simp: mutate_def split: completion.splits)

lemma initializeAdmin_try_keeps:
  "isConnected (snd (initializeAdmin_try L w)) = isConnected w"
  using query_keeps [of AdminFindOne "\<lambda>d. findOne (Admin d)" w]
  by (cases "query AdminFindOne (\<lambda>d. findOne (Admin d)) w")
     (auto simp: initializeAdmin_try_def emit_def Let_def mutate_keeps
        split: completion.splits option.splits)

lemma initializeAdmin_keeps:
  "isConnected w \<Longrightarrow> isConnected (snd (initializeAdmin L w))"
  using initializeAdmin_try_keeps [of L w]
  by (cases "initializeAdmin_try L w")
     (auto simp: initializeAdmin_def connectDB_def emit_def split: completion.splits)

lemma Admin_at_most_one:
  assumes "length (Admin (db w)) \<le> 1"
  shows "length (Admin (db (snd (initializeAdmin_try L w)))) \<le> 1"
proof -
  obtain r w1 where q: "query AdminFindOne (\<lambda>d. findOne (Admin d)) w = (r, w1)"
    by (cases "query AdminFindOne (\<lambda>d. findOne (Admin d)) w")
  have k: "db w1 = db w"
    using query_keeps [of AdminFindOne "\<lambda>d. findOne (Admin d)" w] q by simp
  have f: "r = Returns x \<Longrightarrow> x = findOne (Admin (db w))" for x
    using q k by (auto simp: query_def split: prod.splits completion.splits)
  show ?thesis
  proof (cases r)
    case (Throws e)
    with q k assms show ?thesis by (simp add: initializeAdmin_try_def)
  next
    case (Returns x)
    note x = f [OF Returns]
    have m: "length (Admin (db (snd (mutate ev g (w1\<lparr>seed := s\<rparr>))))) \<le> Suc 0"
      if "length (Admin (g (db w))) \<le> Suc 0" for ev g s
      using mutate_db [of ev g "w1\<lparr>seed := s\<rparr>"] that assms k by auto
    show ?thesis
      using q Returns x assms k
      by (cases "Admin (db w)")
         (auto simp: initializeAdmin_try_def emit_def Let_def findOne_def
            intro!: m split: option.splits completion.splits)
  qed
qed

lemma initializeAdmin_at_most_one:
  assumes "length (Admin (db w)) \<le> 1"
  shows "length (Admin (db (snd (initializeAdmin L w)))) \<le> 1"
proof (cases "connectDB w")
  case (Pair r u)
  show ?thesis
  proof (cases r)
    case (Throws e)
    with Pair connectDB_Throws [of w e u] assms show ?thesis
      by (simp add: initializeAdmin_def)
  next
    case (Returns x)
    with Pair connectDB_Returns [of w x u] assms Admin_at_most_one [of u L] show ?thesis
      by (cases "initializeAdmin_try L u")
         (auto simp: initializeAdmin_def emit_def split: completion.splits)
  qed
qed

lemma get_init_admin_keeps:
  "isConnected w \<Longrightarrow> isConnected (snd (get_init_admin L req w))"
  using initializeAdmin_keeps [of w L]
  by (cases "initializeAdmin L w") (auto simp: get_init_admin_def split: completion.splits)

lemma post_authenticate_keeps:
  "isConnected w \<Longrightarrow> isConnected (snd (post_authenticate L req w))"
  using query_keeps [of AdminFindOne "\<lambda>d. findOne (Admin d)" w]
  by (cases "query AdminFindOne (\<lambda>d. findOne (Admin d)) w")
     (auto simp: post_authenticate_def post_authenticate_try_def connectDB_def emit_def Let_def
        split: completion.splits option.splits)

lemma get_presale_end_keeps:
  "isConnected w \<Longrightarrow> isConnected (snd (get_presale_end req w))"
  using query_keeps [of PresaleEndFindNewest "\<lambda>d. newest presale_createdAt (PresaleEnd d)" w]
  by (cases "query PresaleEndFindNewest (\<lambda>d. newest presale_createdAt (PresaleEnd d)) w")
     (auto simp: get_presale_end_def connectDB_def emit_def split: completion.splits option.splits)

lemma get_progress_bar_keeps:
  "isConnected w \<Longrightarrow> isConnected (snd (get_progress_bar req w))"
  using query_keeps [of ProgressBarFindNewest "\<lambda>d. newest progress_createdAt (ProgressBar d)" w]
  by (cases "query ProgressBarFindNewest (\<lambda>d. newest progress_createdAt (ProgressBar d)) w")
     (auto simp: get_progress_bar_def connectDB_def emit_def split: completion.splits option.splits)

lemma post_progress_bar_keeps:
  "isConnected w \<Longrightarrow> isConnected (snd (post_progress_bar L req w))"
proof -
  assume c: "isConnected w"
  have "isConnected (snd (post_progress_bar_try n w))" for n
    using query_keeps [of ProgressBarFindOne "\<lambda>d. findOne (ProgressBar d)" w] c
    by (cases "query ProgressBarFindOne (\<lambda>d. findOne (ProgressBar d)) w")
       (auto simp: post_progress_bar_try_def Let_def dest: mutate_keepsD
          split: completion.splits option.splits prod.splits)
  from this [of "clamp L (field req ''value'')"] c show ?thesis
    by (cases "post_progress_bar_try (clamp L (field req ''value'')) w")
       (auto simp: post_progress_bar_def connectDB_def emit_def Let_def split: completion.splits)
qed

lemma post_wallet_address_keeps:
  "isConnected w \<Longrightarrow> isConnected (snd (post_wallet_address L req w))"
proof -
  assume c: "isConnected w"
  have "isConnected (snd (post_wallet_address_try L a w))" for a
  proof (cases a)
    case (JStr s)
    then show ?thesis
      using c query_keeps [of "WalletAddressFindOne (toLowerCase L s)"
          "\<lambda>d. find (\<lambda>r. address r = toLowerCase L s) (WalletAddress d)" w]
      by (cases "query (WalletAddressFindOne (toLowerCase L s))
                   (\<lambda>d. find (\<lambda>r. address r = toLowerCase L s) (WalletAddress d)) w")
         (auto simp: post_wallet_address_try_def Let_def dest: mutate_keepsD
            split: completion.splits option.splits prod.splits)
  qed (simp_all add: post_wallet_address_try_def c)
  from this [of "field req ''address''"] c show ?thesis
    by (cases "post_wallet_address_try L (field req ''address'') w")
       (auto simp: post_wallet_address_def connectDB_def emit_def Let_def split: completion.splits)
qed

lemma authenticateJWT_keeps:
  "(\<And>w. isConnected w \<Longrightarrow> isConnected (snd (handler req w))) \<Longrightarrow>
   isConnected w \<Longrightarrow> isConnected (snd (authenticateJWT L handler req w))"
  by (simp add: authenticateJWT_def split: option.splits)

end
